theory Spec2Isabelle
  imports Main
begin

section \<open>JavaScript values\<close>

text \<open>
  The assertions take values of any shape. The model covers the primitives, plain
  objects (records created by a literal or by parsing JSON, whose prototype is
  \<open>Object.prototype\<close>) and the built-in objects a plain object inherits from
  \<open>Object.prototype\<close>.

  \<^item> A number is \<open>NaN\<close>, an infinity, negative zero or an integer-valued double
    (\<open>Finite n\<close> with \<open>n\<close> of magnitude at most \<open>2 ^ 53\<close>, the range where every integer
    is a double; \<open>Finite 0\<close> is positive zero). The library never computes with numbers,
    it only compares them.
  \<^item> \<open>JObj a fs\<close> is the plain object stored at address \<open>a\<close>; \<open>fs\<close> lists its own
    enumerable properties in enumeration order, with distinct keys. Two objects are
    the same reference exactly when their addresses agree.
  \<^item> \<open>JBuiltin n\<close> is the object that \<open>Object.prototype\<close> holds under the name \<open>n\<close>:
    a built-in function, or \<open>Object.prototype\<close> itself for \<open>__proto__\<close>. It has no own
    enumerable property.
\<close>

type_synonym addr = nat

datatype jsnum = NaN | PosInf | NegInf | NegZero | Finite int

datatype jsval =
    JUndefined
  | JNull
  | JBool bool
  | JNum jsnum
  | JStr string
  | JObj addr "(string \<times> jsval) list"
  | JBuiltin string

text \<open>
  The error the host raises for a property test on a primitive, for \<open>Object.keys\<close> of
  \<open>undefined\<close> or \<open>null\<close>, and for a conversion that yields no primitive.
\<close>

datatype host_error = TypeError

subsection \<open>Strict equality\<close>

text \<open>\<open>x === y\<close> on numbers: \<open>NaN\<close> differs from everything, the two zeros are equal.\<close>

fun num_strict_eq :: "jsnum \<Rightarrow> jsnum \<Rightarrow> bool" where
  "num_strict_eq NaN _ = False"
| "num_strict_eq _ NaN = False"
| "num_strict_eq NegZero y = (y = NegZero \<or> y = Finite 0)"
| "num_strict_eq x NegZero = (x = Finite 0)"
| "num_strict_eq x y = (x = y)"

fun strict_eq :: "jsval \<Rightarrow> jsval \<Rightarrow> bool" where
  "strict_eq JUndefined JUndefined = True"
| "strict_eq JNull JNull = True"
| "strict_eq (JBool a) (JBool b) = (a = b)"
| "strict_eq (JNum a) (JNum b) = num_strict_eq a b"
| "strict_eq (JStr a) (JStr b) = (a = b)"
| "strict_eq (JObj a _) (JObj b _) = (a = b)"
| "strict_eq (JBuiltin a) (JBuiltin b) = (a = b)"
| "strict_eq _ _ = False"

subsection \<open>Property enumeration and lookup\<close>

text \<open>Array-index keys of a string are the decimal numerals \<open>0\<close>, \<open>1\<close>, ...\<close>

fun show_nat :: "nat \<Rightarrow> string" where
  "show_nat n =
     (if n < 10 then [''0123456789'' ! n]
      else show_nat (n div 10) @ [''0123456789'' ! (n mod 10)])"

declare show_nat.simps [simp del]

text \<open>
  \<open>for (const key in v)\<close> together with the read \<open>v[key]\<close>: the enumerable
  properties of \<open>v\<close> as key-value pairs. A string enumerates its indices, each holding
  the one-character string at that index; the other primitives and the built-in
  objects enumerate nothing.
\<close>

fun for_in :: "jsval \<Rightarrow> (string \<times> jsval) list" where
  "for_in (JStr s) = map (\<lambda>i. (show_nat i, JStr [s ! i])) [0..<length s]"
| "for_in (JObj _ fs) = fs"
| "for_in _ = []"

text \<open>\<open>Object.keys(v)\<close>: raises a \<open>TypeError\<close> on \<open>undefined\<close> and \<open>null\<close>.\<close>

fun Object_keys :: "jsval \<Rightarrow> host_error + string list" where
  "Object_keys JUndefined = Inl TypeError"
| "Object_keys JNull = Inl TypeError"
| "Object_keys v = Inr (map fst (for_in v))"

text \<open>The property names every object inherits from \<open>Object.prototype\<close>.\<close>

definition object_prototype_names :: "string list" where
  "object_prototype_names =
     [''constructor'', ''__defineGetter__'', ''__defineSetter__'', ''hasOwnProperty'',
      ''__lookupGetter__'', ''__lookupSetter__'', ''isPrototypeOf'',
      ''propertyIsEnumerable'', ''toString'', ''valueOf'', ''__proto__'',
      ''toLocaleString'']"

definition inherited :: "string \<Rightarrow> jsval option" where
  "inherited k = (if k \<in> set object_prototype_names then Some (JBuiltin k) else None)"

text \<open>
  \<open>key in v\<close> together with the read \<open>v[key]\<close>: \<open>Inr None\<close> when \<open>v\<close> lacks the
  key, \<open>Inr (Some w)\<close> when it has it with value \<open>w\<close>. The \<open>in\<close> operator raises a
  \<open>TypeError\<close> when its right operand is a primitive, and it finds inherited
  properties as well as own ones. Of a built-in object only the members inherited
  from \<open>Object.prototype\<close> are modelled.
\<close>

fun lookup_in :: "jsval \<Rightarrow> string \<Rightarrow> host_error + jsval option" where
  "lookup_in (JObj _ fs) k =
     (case map_of fs k of Some w \<Rightarrow> Inr (Some w) | None \<Rightarrow> Inr (inherited k))"
| "lookup_in (JBuiltin _) k = Inr (inherited k)"
| "lookup_in _ k = Inl TypeError"

section \<open>Structural equality\<close>

text \<open>
  \<open>xs.every(body)\<close> for a callback that may raise: the first element on which the
  callback raises or answers \<open>false\<close> ends the iteration. The loop of \<open>_deepEqual\<close>,
  which returns \<open>false\<close> from inside its body and \<open>true\<close> after the last key, has the
  same shape.
\<close>

fun every :: "('a \<Rightarrow> host_error + bool) \<Rightarrow> 'a list \<Rightarrow> host_error + bool" where
  "every body [] = Inr True"
| "every body (x # xs) =
     (case body x of
        Inl e \<Rightarrow> Inl e
      | Inr False \<Rightarrow> Inr False
      | Inr True \<Rightarrow> every body xs)"

lemma every_cong [fundef_cong]:
  "xs = ys \<Longrightarrow> (\<And>x. x \<in> set ys \<Longrightarrow> f x = g x) \<Longrightarrow> every f xs = every g ys"
  by (induction ys arbitrary: xs) (auto split: sum.splits bool.splits)

text \<open>The number of plain objects nested in a value.\<close>

fun rank :: "jsval \<Rightarrow> nat" where
  "rank (JObj _ fs) = Suc (sum_list (map (\<lambda>kv. rank (snd kv)) fs))"
| "rank _ = 0"

lemma rank_own_value: "(k, v) \<in> set fs \<Longrightarrow> rank v < rank (JObj a fs)"
  by (induction fs) auto

lemma rank_map_of: "map_of fs k = Some w \<Longrightarrow> rank w < rank (JObj a fs)"
  using rank_own_value [OF map_of_SomeD] by fastforce

lemma rank_for_in: "(k, v) \<in> set (for_in x) \<Longrightarrow> rank v \<le> rank x"
  by (cases x) (auto dest: rank_own_value [THEN less_imp_le])

lemma rank_lookup_in:
  "lookup_in y k = Inr (Some w) \<Longrightarrow> rank w \<le> rank y"
  by (cases y) (auto simp: inherited_def dest: rank_map_of [THEN less_imp_le] split: option.splits if_splits)

text \<open>
  \<open>_deepEqual(obj1, obj2)\<close> of \<open>src/index.ts\<close>. (An Isabelle name cannot start with
  an underscore.)
\<close>

function priv_deepEqual :: "jsval \<Rightarrow> jsval \<Rightarrow> host_error + bool" where
  "priv_deepEqual obj1 obj2 =
     (if strict_eq obj1 obj2 then Inr True
      else case Object_keys obj1 of
        Inl e \<Rightarrow> Inl e
      | Inr keys1 \<Rightarrow>
         (case Object_keys obj2 of
            Inl e \<Rightarrow> Inl e
          | Inr keys2 \<Rightarrow>
             if length keys1 \<noteq> length keys2 then Inr False
             else every
                    (\<lambda>(key, v1).
                       case lookup_in obj2 key of
                         Inl e \<Rightarrow> Inl e
                       | Inr None \<Rightarrow> Inr False
                       | Inr (Some v2) \<Rightarrow> priv_deepEqual v1 v2)
                    (for_in obj1)))"
  by pat_completeness auto

termination
proof (relation "measure (\<lambda>(x, y). rank x + rank y)")
  show "wf (measure (\<lambda>(x, y). rank x + rank y))" by simp
next
  fix obj1 obj2 keys1 keys2 kv key v1 w v2
  assume ne: "\<not> strict_eq obj1 obj2"
    and k1: "Object_keys obj1 = Inr keys1"
    and k2: "Object_keys obj2 = Inr keys2"
    and len: "\<not> length keys1 \<noteq> length keys2"
    and mem: "kv \<in> set (for_in obj1)"
    and kv: "(key, v1) = kv"
    and look: "lookup_in obj2 key = Inr w"
    and w: "w = Some v2"
  from mem kv have mem': "(key, v1) \<in> set (for_in obj1)" by simp
  from look w have look': "lookup_in obj2 key = Inr (Some v2)" by simp
  have le1: "rank v1 \<le> rank obj1" using mem' by (rule rank_for_in)
  have le2: "rank v2 \<le> rank obj2" using look' by (rule rank_lookup_in)
  have "rank v1 < rank obj1 \<or> rank v2 < rank obj2"
  proof (cases obj1)
    case (JObj a fs)
    with mem' show ?thesis by (auto dest: rank_own_value)
  next
    case (JStr s)
    show ?thesis
    proof (cases obj2)
      case (JObj b gs)
      with look' have "rank v2 < rank obj2"
        by (auto simp: inherited_def dest: rank_map_of split: option.splits if_splits)
      then show ?thesis ..
    next
      case (JBuiltin n)
      with k2 have "keys2 = []" by auto
      with len k1 JStr have "s = []" by auto
      with mem' JStr show ?thesis by simp
    qed (use look' in auto)
  qed (use mem' in auto)
  with le1 le2 show "((v1, v2), (obj1, obj2)) \<in> measure (\<lambda>(x, y). rank x + rank y)"
    by auto
qed


declare priv_deepEqual.simps [simp del]

section \<open>The failure primitive\<close>

text \<open>
  The pattern given to \<open>throws\<close>: a string, or a \<open>RegExp\<close> with its source and flags.
\<close>

datatype pattern = PString string | PRegExp string string

text \<open>
  What \<open>isEmpty\<close> and \<open>isNotEmpty\<close> are given: an array, a \<open>NodeList\<close> (of so many
  nodes), a \<open>Map\<close> (its entries), a \<open>Set\<close> (its members), or any other value; a string
  is \<open>Plain (JStr s)\<close>. The host is a browser: \<open>NodeList\<close> is defined.
\<close>

datatype target =
    Plain jsval
  | Array "jsval list"
  | NodeList nat
  | TMap "(jsval \<times> jsval) list"
  | TSet "jsval list"

text \<open>
  The text of a failure is a template literal. A message is kept as the template that
  builds it: literal chunks, and the interpolated values, which the host converts to
  text (the conversion of an object runs the object's own \<open>toString\<close>).
\<close>

datatype shown =
    Value jsval
  | Elements "jsval list"
  | Names "string list"
  | Pattern pattern
  | Target target

datatype part = Lit string | Shown shown

type_synonym message = "part list"

text \<open>
  What an assertion raises: the \<open>Error\<close> that \<open>fail\<close> builds, or an error of the host
  raised while the assertion evaluates its condition or its default message: the
  \<open>TypeError\<close> of a property test or of a conversion, the \<open>SyntaxError\<close> of a string
  that is not a regular expression, the \<open>RangeError\<close> of a conversion that exhausts the
  stack.
\<close>

datatype failure = Error message | HostError host_error | SyntaxError | RangeError

text \<open>An assertion returns nothing (\<open>Inr ()\<close>) or raises (\<open>Inl\<close>).\<close>

type_synonym outcome = "failure + unit"

definition fail :: "message \<Rightarrow> outcome" where
  "fail message = Inl (Error message)"

text \<open>
  \<open>message || template\<close>: the caller's message unless it is omitted (\<open>None\<close>, that
  is \<open>undefined\<close>) or the empty string, the two falsy cases of a string parameter.
\<close>

fun or_default :: "string option \<Rightarrow> message \<Rightarrow> message" where
  "or_default None template = template"
| "or_default (Some m) template = (if m = [] then template else [Lit m])"

subsection \<open>Evaluating a template\<close>

text \<open>
  A template literal converts each interpolated value to a string before \<open>fail\<close> is
  called. A primitive always converts. A plain object is converted by its \<open>toString\<close>
  method and, if that is not callable or returns an object, by its \<open>valueOf\<close> method;
  when neither gives a primitive the conversion raises a \<open>TypeError\<close>. Either method
  is the object's own property of that name or the one inherited from
  \<open>Object.prototype\<close>. The only callable values of the model are the built-in functions.
\<close>

fun callable :: "jsval \<Rightarrow> bool" where
  "callable (JBuiltin n) = (n \<noteq> ''__proto__'')"
| "callable _ = False"

fun get_method :: "(string \<times> jsval) list \<Rightarrow> string \<Rightarrow> jsval" where
  "get_method fs name = (case map_of fs name of Some v \<Rightarrow> v | None \<Rightarrow> JBuiltin name)"

datatype completion = GivesPrimitive | GivesObject | Raises failure

text \<open>
  A built-in function of \<open>Object.prototype\<close>, called on a plain object without
  arguments: \<open>toString\<close> gives a string, the three property tests a Boolean, the two
  lookups \<open>undefined\<close>; \<open>valueOf\<close> gives the object back and \<open>constructor\<close> a new
  object; the two definers raise a \<open>TypeError\<close>, their accessor argument being absent.
  (No other name denotes a function of \<open>Object.prototype\<close>.)
\<close>

definition call_plain :: "string \<Rightarrow> completion" where
  "call_plain n =
     (if n \<in> set [''toString'', ''hasOwnProperty'', ''isPrototypeOf'', ''propertyIsEnumerable'',
                   ''__lookupGetter__'', ''__lookupSetter__'']
      then GivesPrimitive
      else if n \<in> set [''valueOf'', ''constructor''] then GivesObject
      else Raises (HostError TypeError))"

text \<open>
  \<open>toLocaleString\<close> invokes the object's \<open>toString\<close> method; an object whose
  \<open>toString\<close> is \<open>toLocaleString\<close> itself recurses until the stack is exhausted.
\<close>

definition call_builtin :: "string \<Rightarrow> (string \<times> jsval) list \<Rightarrow> completion" where
  "call_builtin n fs =
     (if n = ''toLocaleString'' then
        (case get_method fs ''toString'' of
           JBuiltin m \<Rightarrow>
             if m = ''__proto__'' then Raises (HostError TypeError)
             else if m = ''toLocaleString'' then Raises RangeError
             else call_plain m
         | _ \<Rightarrow> Raises (HostError TypeError))
      else call_plain n)"

text \<open>One step of the conversion: a method that is not callable is passed over.\<close>

definition try_method :: "(string \<times> jsval) list \<Rightarrow> string \<Rightarrow> completion" where
  "try_method fs name =
     (case get_method fs name of
        JBuiltin n \<Rightarrow> if n = ''__proto__'' then GivesObject else call_builtin n fs
      | _ \<Rightarrow> GivesObject)"

text \<open>\<open>${v}\<close>: \<open>Inr ()\<close> when \<open>v\<close> converts to a string, \<open>Inl\<close> the error raised otherwise.\<close>

fun convert_value :: "jsval \<Rightarrow> failure + unit" where
  "convert_value (JObj _ fs) =
     (case try_method fs ''toString'' of
        GivesPrimitive \<Rightarrow> Inr ()
      | Raises e \<Rightarrow> Inl e
      | GivesObject \<Rightarrow>
          (case try_method fs ''valueOf'' of
             GivesPrimitive \<Rightarrow> Inr ()
           | Raises e \<Rightarrow> Inl e
           | GivesObject \<Rightarrow> Inl (HostError TypeError)))"
| "convert_value _ = Inr ()"

text \<open>An array is joined: its elements are converted in order.\<close>

fun convert_elements :: "jsval list \<Rightarrow> failure + unit" where
  "convert_elements [] = Inr ()"
| "convert_elements (x # xs) =
     (case convert_value x of Inl e \<Rightarrow> Inl e | Inr u \<Rightarrow> convert_elements xs)"

text \<open>
  An array of strings, a pattern, a \<open>NodeList\<close>, a \<open>Map\<close> and a \<open>Set\<close> always convert
  (the last three to their class name, whatever they hold).
\<close>

fun convert_shown :: "shown \<Rightarrow> failure + unit" where
  "convert_shown (Value v) = convert_value v"
| "convert_shown (Elements xs) = convert_elements xs"
| "convert_shown (Target (Plain v)) = convert_value v"
| "convert_shown (Target (Array xs)) = convert_elements xs"
| "convert_shown _ = Inr ()"

text \<open>The first error raised while a template is evaluated, from left to right.\<close>

fun template_error :: "message \<Rightarrow> failure option" where
  "template_error [] = None"
| "template_error (Lit s # ps) = template_error ps"
| "template_error (Shown x # ps) =
     (case convert_shown x of Inl e \<Rightarrow> Some e | Inr u \<Rightarrow> template_error ps)"

text \<open>
  \<open>fail(`...`)\<close> with a template as its argument: the template is evaluated first, and
  an error it raises is raised in place of the failure.
\<close>

definition raise_template :: "message \<Rightarrow> outcome" where
  "raise_template template =
     (case template_error template of Some e \<Rightarrow> Inl e | None \<Rightarrow> fail template)"

subsection \<open>Rendering primitives\<close>

fun num_to_string :: "jsnum \<Rightarrow> string" where
  "num_to_string NaN = ''NaN''"
| "num_to_string PosInf = ''Infinity''"
| "num_to_string NegInf = ''-Infinity''"
| "num_to_string NegZero = ''0''"
| "num_to_string (Finite n) = (if n < 0 then ''-'' @ show_nat (nat (- n)) else show_nat (nat n))"

text \<open>
  The text of an interpolated primitive, as a template literal of \<open>src/index.ts\<close>
  produces it; an object is rendered by the host.
\<close>

fun prim_to_string :: "jsval \<Rightarrow> string option" where
  "prim_to_string JUndefined = Some ''undefined''"
| "prim_to_string JNull = Some ''null''"
| "prim_to_string (JBool b) = Some (if b then ''true'' else ''false'')"
| "prim_to_string (JNum n) = Some (num_to_string n)"
| "prim_to_string (JStr s) = Some s"
| "prim_to_string _ = None"

fun render :: "message \<Rightarrow> string option" where
  "render [] = Some []"
| "render (Lit s # ps) = map_option (\<lambda>r. s @ r) (render ps)"
| "render (Shown (Value v) # ps) =
     (case prim_to_string v of
        None \<Rightarrow> None
      | Some t \<Rightarrow> map_option (\<lambda>r. t @ r) (render ps))"
| "render (Shown _ # ps) = None"

section \<open>Conditions\<close>

text \<open>\<open>if (v)\<close>: the falsy values are \<open>undefined\<close>, \<open>null\<close>, \<open>false\<close>, the zeros, \<open>NaN\<close> and
  the empty string.\<close>

fun truthy :: "jsval \<Rightarrow> bool" where
  "truthy JUndefined = False"
| "truthy JNull = False"
| "truthy (JBool b) = b"
| "truthy (JNum n) = (n \<noteq> NaN \<and> n \<noteq> NegZero \<and> n \<noteq> Finite 0)"
| "truthy (JStr s) = (s \<noteq> [])"
| "truthy (JObj _ _) = True"
| "truthy (JBuiltin _) = True"

subsection \<open>Loose equality\<close>

text \<open>
  What the model leaves to the host: the number a string denotes (floating-point
  parsing); the primitive an object converts to under \<open>==\<close>; whether a string is the
  source of a regular expression (\<open>valid_source\<close>) and whether a regular expression,
  given by its source and flags, matches a string (\<open>regexp_match\<close>); and the answer of
  a \<open>match\<close> method that an error message of its own carries (\<open>call_match\<close>).
\<close>

record host =
  StringToNumber :: "string \<Rightarrow> jsnum"
  ToPrimitive :: "jsval \<Rightarrow> host_error + jsval"
  valid_source :: "string \<Rightarrow> bool"
  regexp_match :: "string \<Rightarrow> string \<Rightarrow> string \<Rightarrow> bool"
  call_match :: "jsval \<Rightarrow> pattern \<Rightarrow> host_error + bool"

definition is_digit :: "char \<Rightarrow> bool" where
  "is_digit c \<longleftrightarrow> c \<in> set ''0123456789''"

definition read_nat :: "string \<Rightarrow> nat" where
  "read_nat s = foldl (\<lambda>n c. 10 * n + (of_char c - 48)) 0 s"

text \<open>
  A string of one to fifteen decimal digits denotes that integer exactly; every other
  string is read by the host.
\<close>

definition string_to_number :: "host \<Rightarrow> string \<Rightarrow> jsnum" where
  "string_to_number h s =
     (if s \<noteq> [] \<and> length s \<le> 15 \<and> list_all is_digit s then Finite (int (read_nat s))
      else StringToNumber h s)"

fun is_object :: "jsval \<Rightarrow> bool" where
  "is_object (JObj _ _) = True"
| "is_object (JBuiltin _) = True"
| "is_object _ = False"

fun is_nullish :: "jsval \<Rightarrow> bool" where
  "is_nullish JUndefined = True"
| "is_nullish JNull = True"
| "is_nullish _ = False"

text \<open>\<open>ToNumber\<close> of a Boolean operand; other operands are left as they are.\<close>

fun number_of_bool :: "jsval \<Rightarrow> jsval" where
  "number_of_bool (JBool b) = JNum (Finite (if b then 1 else 0))"
| "number_of_bool v = v"

text \<open>\<open>x == y\<close> for \<open>undefined\<close>, \<open>null\<close>, numbers and strings.\<close>

fun prim_eq :: "host \<Rightarrow> jsval \<Rightarrow> jsval \<Rightarrow> bool" where
  "prim_eq h (JNum a) (JNum b) = num_strict_eq a b"
| "prim_eq h (JStr a) (JStr b) = (a = b)"
| "prim_eq h (JNum a) (JStr s) = num_strict_eq a (string_to_number h s)"
| "prim_eq h (JStr s) (JNum b) = num_strict_eq (string_to_number h s) b"
| "prim_eq h x y = (is_nullish x \<and> is_nullish y)"

text \<open>The host's conversion raises a \<open>TypeError\<close> when no primitive results.\<close>

definition to_primitive :: "host \<Rightarrow> jsval \<Rightarrow> host_error + jsval" where
  "to_primitive h v =
     (case ToPrimitive h v of
        Inl e \<Rightarrow> Inl e
      | Inr p \<Rightarrow> if is_object p then Inl TypeError else Inr p)"

text \<open>
  \<open>x == y\<close>. Two objects are compared by reference. A Boolean operand is converted to a
  number first, which leaves the comparison of two Booleans as it is. An object meeting a
  Boolean, a number or a string is converted to a primitive; meeting \<open>undefined\<close> or
  \<open>null\<close> it is unequal without conversion.
\<close>

definition loose_eq :: "host \<Rightarrow> jsval \<Rightarrow> jsval \<Rightarrow> host_error + bool" where
  "loose_eq h x y =
     (if is_object x \<and> is_object y then Inr (strict_eq x y)
      else if is_object x then
        (if is_nullish y then Inr False
         else case to_primitive h x of
           Inl e \<Rightarrow> Inl e
         | Inr p \<Rightarrow> Inr (prim_eq h (number_of_bool p) (number_of_bool y)))
      else if is_object y then
        (if is_nullish x then Inr False
         else case to_primitive h y of
           Inl e \<Rightarrow> Inl e
         | Inr p \<Rightarrow> Inr (prim_eq h (number_of_bool x) (number_of_bool p)))
      else Inr (prim_eq h (number_of_bool x) (number_of_bool y)))"

subsection \<open>Array membership\<close>

text \<open>\<open>SameValueZero\<close>: strict equality, except that \<open>NaN\<close> is the same value as \<open>NaN\<close>.\<close>

fun same_value_zero :: "jsval \<Rightarrow> jsval \<Rightarrow> bool" where
  "same_value_zero (JNum NaN) (JNum NaN) = True"
| "same_value_zero x y = strict_eq x y"

text \<open>\<open>haystack.includes(needle)\<close>.\<close>

definition array_includes :: "jsval list \<Rightarrow> jsval \<Rightarrow> bool" where
  "array_includes haystack needle = list_ex (\<lambda>x. same_value_zero x needle) haystack"


subsection \<open>Matching a message\<close>

text \<open>
  \<open>s.match(pattern)\<close> compiles a string pattern to a regular expression first, and
  raises a \<open>SyntaxError\<close> when the string is not the source of one. Two kinds of
  source are decided here, the others by the host: a source of letters, digits and
  spaces only is a regular expression, and without flags it matches the strings that
  contain it; a source of such characters and opening parentheses, with at least one
  parenthesis, is none (its group is never closed).
\<close>

definition literal_char :: "char \<Rightarrow> bool" where
  "literal_char c \<longleftrightarrow>
     c \<in> set ''abcdefghijklmnopqrstuvwxyzABCDEFGHIJKLMNOPQRSTUVWXYZ0123456789 ''"

definition literal_source :: "string \<Rightarrow> bool" where
  "literal_source t = list_all literal_char t"

definition unclosed_group :: "string \<Rightarrow> bool" where
  "unclosed_group t \<longleftrightarrow>
     list_all (\<lambda>c. literal_char c \<or> c = CHR ''('') t \<and> list_ex (\<lambda>c. c = CHR ''('') t"

fun starts_with :: "string \<Rightarrow> string \<Rightarrow> bool" where
  "starts_with [] s = True"
| "starts_with (p # ps) [] = False"
| "starts_with (p # ps) (c # cs) = (p = c \<and> starts_with ps cs)"

fun contains :: "string \<Rightarrow> string \<Rightarrow> bool" where
  "contains t [] = (t = [])"
| "contains t (c # cs) = (starts_with t (c # cs) \<or> contains t cs)"

definition compiles :: "host \<Rightarrow> string \<Rightarrow> bool" where
  "compiles h t =
     (if literal_source t then True
      else if unclosed_group t then False
      else valid_source h t)"

definition search :: "host \<Rightarrow> string \<Rightarrow> string \<Rightarrow> string \<Rightarrow> bool" where
  "search h s source flags =
     (if literal_source source \<and> flags = [] then contains source s
      else regexp_match h s source flags)"

text \<open>Whether \<open>s.match(pattern)\<close> is truthy, for a string \<open>s\<close>.\<close>

fun string_match :: "host \<Rightarrow> string \<Rightarrow> pattern \<Rightarrow> failure + bool" where
  "string_match h s (PString t) =
     (if compiles h t then Inr (search h s t []) else Inl SyntaxError)"
| "string_match h s (PRegExp source flags) = Inr (search h s source flags)"

text \<open>
  \<open>error.message.match(errorLike)\<close>. Only a string has a \<open>match\<close> method by itself;
  on any other message the call raises a \<open>TypeError\<close>, unless the message is an object
  with a callable property \<open>match\<close> of its own, whose answer is the host's.
\<close>

fun message_match :: "host \<Rightarrow> jsval \<Rightarrow> pattern \<Rightarrow> failure + bool" where
  "message_match h (JStr s) p = string_match h s p"
| "message_match h (JObj a fs) p =
     (case map_of fs ''match'' of
        None \<Rightarrow> Inl (HostError TypeError)
      | Some m \<Rightarrow>
          if callable m then
            (case call_match h (JObj a fs) p of
               Inl e \<Rightarrow> Inl (HostError e)
             | Inr r \<Rightarrow> Inr r)
          else Inl (HostError TypeError))"
| "message_match h _ p = Inl (HostError TypeError)"

section \<open>The assertions\<close>

text \<open>
  Each assertion of \<open>src/index.ts\<close>, with its condition, its early \<open>return\<close> and its
  call of \<open>fail\<close>. An error the host raises while the condition is evaluated leaves the
  assertion as it is, and so does an error raised while the default message is built
  (\<open>raise_template\<close>): \<open>message || `...`\<close> evaluates the template only when the
  caller's message is omitted or empty. Where a template interpolates only values that
  always convert (a falsy value in \<open>isOk\<close>, arrays of strings in \<open>hasAllKeys\<close> and
  \<open>containsAllKeys\<close>), \<open>fail\<close> is called directly.
\<close>

definition isOk :: "jsval \<Rightarrow> string option \<Rightarrow> outcome" where
  "isOk thing message =
     (if truthy thing then Inr ()
      else fail (or_default message [Lit ''Expected '', Shown (Value thing), Lit '' to be ok'']))"


definition equal_assert :: "host \<Rightarrow> jsval \<Rightarrow> jsval \<Rightarrow> string option \<Rightarrow> outcome" where
  "equal_assert h actual expected message =
     (case loose_eq h actual expected of
        Inl e \<Rightarrow> Inl (HostError e)
      | Inr eq \<Rightarrow>
          if eq then Inr ()
          else raise_template (or_default message
                      [Lit ''Expected '', Shown (Value actual), Lit '' and '',
                       Shown (Value expected), Lit '' to be equal'']))"






definition include_assert :: "jsval list \<Rightarrow> jsval \<Rightarrow> string option \<Rightarrow> outcome" where
  "include_assert haystack needle message =
     (if array_includes haystack needle then Inr ()
      else raise_template (or_default message
                  [Lit ''Expected '', Shown (Elements haystack), Lit '' to include '',
                   Shown (Value needle)]))"

definition notInclude :: "jsval list \<Rightarrow> jsval \<Rightarrow> string option \<Rightarrow> outcome" where
  "notInclude haystack needle message =
     (if \<not> array_includes haystack needle then Inr ()
      else raise_template (or_default message
                  [Lit ''Expected '', Shown (Elements haystack), Lit '' to not include '',
                   Shown (Value needle)]))"

definition hasAllKeys :: "jsval \<Rightarrow> string list \<Rightarrow> string option \<Rightarrow> outcome" where
  "hasAllKeys thing keys message =
     (case Object_keys thing of
        Inl e \<Rightarrow> Inl (HostError e)
      | Inr objectKeys \<Rightarrow>
          let allKeys = (length objectKeys = length keys \<and>
                         list_all (\<lambda>key. key \<in> set objectKeys) keys)
          in if allKeys then Inr ()
             else fail (or_default message
                         [Lit ''Expected '', Shown (Names objectKeys), Lit '' to include '',
                          Shown (Names keys), Lit '' and only those keys'']))"

text \<open>
  \<open>containsAllKeys\<close> calls \<open>Object.keys(thing)\<close> inside the callback of \<open>every\<close>, once
  for each key, and once more for the default message.
\<close>

definition containsAllKeys :: "jsval \<Rightarrow> string list \<Rightarrow> string option \<Rightarrow> outcome" where
  "containsAllKeys thing keys message =
     (case every (\<lambda>key. case Object_keys thing of
                          Inl e \<Rightarrow> Inl e
                        | Inr objectKeys \<Rightarrow> Inr (key \<in> set objectKeys)) keys of
        Inl e \<Rightarrow> Inl (HostError e)
      | Inr allKeys \<Rightarrow>
          if allKeys then Inr ()
          else (case Object_keys thing of
                  Inl e \<Rightarrow> Inl (HostError e)
                | Inr objectKeys \<Rightarrow>
                    fail (or_default message
                           [Lit ''Expected '', Shown (Names objectKeys),
                            Lit '' to include all the keys: '', Shown (Names keys)])))"

text \<open>
  What the function given to \<open>throws\<close> may raise: an instance of \<open>Error\<close>, with the
  value of its \<open>message\<close> property, or any other value.
\<close>

datatype thrown = ErrorInstance jsval | OtherValue jsval

definition throws :: "host \<Rightarrow> (unit \<Rightarrow> thrown + unit) \<Rightarrow> pattern \<Rightarrow> outcome" where
  "throws h fn errorLike =
     (case fn () of
        Inl (OtherValue v) \<Rightarrow> Inr ()
      | Inl (ErrorInstance msg) \<Rightarrow>
          (case message_match h msg errorLike of
             Inl e \<Rightarrow> Inl e
           | Inr matched \<Rightarrow>
               if matched then Inr ()
               else raise_template
                      [Lit ''Expected error message '', Shown (Value msg), Lit '' to match '',
                       Shown (Pattern errorLike)])
      | Inr u \<Rightarrow> fail [Lit ''Expected function to throw''])"

fun isEmpty :: "target \<Rightarrow> outcome" where
  "isEmpty (Plain (JStr s)) =
     (if length s = 0 then Inr ()
      else raise_template [Lit ''Expected '', Shown (Target (Plain (JStr s))), Lit '' to be empty''])"
| "isEmpty (Array xs) =
     (if length xs = 0 then Inr ()
      else raise_template [Lit ''Expected '', Shown (Target (Array xs)), Lit '' to be empty''])"
| "isEmpty (NodeList n) =
     (if n = 0 then Inr ()
      else raise_template [Lit ''Expected '', Shown (Target (NodeList n)), Lit '' to be empty''])"
| "isEmpty (TMap entries) =
     (if length entries = 0 then Inr ()
      else raise_template [Lit ''Expected '', Shown (Target (TMap entries)), Lit '' to be empty''])"
| "isEmpty (TSet members) =
     (if length members = 0 then Inr ()
      else raise_template [Lit ''Expected '', Shown (Target (TSet members)), Lit '' to be empty''])"
| "isEmpty target =
     raise_template [Lit ''Didn't know how to check if '', Shown (Target target), Lit '' is empty'']"


section \<open>Predicates of the specification\<close>

text \<open>
  The condition under which the loop of \<open>_deepEqual\<close> runs to its end, with the \<open>in\<close>
  operator as the code applies it.
\<close>

definition in_condition :: "jsval \<Rightarrow> jsval \<Rightarrow> bool" where
  "in_condition a b \<longleftrightarrow>
     strict_eq a b \<or>
     (case (Object_keys a, Object_keys b) of
        (Inr keys1, Inr keys2) \<Rightarrow>
          length keys1 = length keys2 \<and>
          list_all
            (\<lambda>(k, v). case lookup_in b k of
                         Inr (Some w) \<Rightarrow> priv_deepEqual v w = Inr True
                       | _ \<Rightarrow> False)
            (for_in a)
      | _ \<Rightarrow> False)"

text \<open>Values built from plain objects, Booleans, numbers and built-in objects only.\<close>

fun plain_data :: "jsval \<Rightarrow> bool" where
  "plain_data (JObj _ fs) = list_all (\<lambda>kv. plain_data (snd kv)) fs"
| "plain_data (JBool _) = True"
| "plain_data (JNum _) = True"
| "plain_data (JBuiltin _) = True"
| "plain_data _ = False"

text \<open>
  Records built from plain objects, Booleans and numbers whose keys are distinct and
  none of which is the name of a property inherited from \<open>Object.prototype\<close>.
\<close>

fun simple_record :: "jsval \<Rightarrow> bool" where
  "simple_record (JObj _ fs) =
     (distinct (map fst fs) \<and>
      list_all (\<lambda>kv. fst kv \<notin> set object_prototype_names \<and> simple_record (snd kv)) fs)"
| "simple_record (JBool _) = True"
| "simple_record (JNum _) = True"
| "simple_record _ = False"

text \<open>The shapes \<open>isEmpty\<close> and \<open>isNotEmpty\<close> recognise.\<close>

fun recognised :: "target \<Rightarrow> bool" where
  "recognised (Plain (JStr _)) = True"
| "recognised (Plain _) = False"
| "recognised _ = True"

text \<open>
  The reading of the specification: an own key of \<open>b\<close>. Only an object has keys that
  the loop can test.
\<close>

fun own_value :: "jsval \<Rightarrow> string \<Rightarrow> jsval option" where
  "own_value (JObj _ fs) k = map_of fs k"
| "own_value _ k = None"

text \<open>No enumerable key of \<open>a\<close> is the name of a property inherited from \<open>Object.prototype\<close>.\<close>

definition no_inherited_keys :: "jsval \<Rightarrow> bool" where
  "no_inherited_keys a = list_all (\<lambda>kv. fst kv \<notin> set object_prototype_names) (for_in a)"

text \<open>
  What one turn of the loop decides for the key \<open>k\<close> of \<open>a\<close> with value \<open>v\<close>, under
  that reading: a \<open>TypeError\<close> when \<open>b\<close> is a primitive, \<open>false\<close> when \<open>b\<close> lacks the
  key, the result of \<open>_deepEqual(v, b[k])\<close> otherwise.
\<close>

definition compare_key :: "jsval \<Rightarrow> string \<times> jsval \<Rightarrow> host_error + bool" where
  "compare_key b kv =
     (if is_object b then
        (case own_value b (fst kv) of
           None \<Rightarrow> Inr False
         | Some w \<Rightarrow> priv_deepEqual (snd kv) w)
      else Inl TypeError)"

text \<open>
  The condition the specification gives for \<open>_deepEqual(a, b)\<close> to return \<open>true\<close>:
  \<open>a\<close> and \<open>b\<close> are the identical reference, or their key counts agree and, for each
  own enumerable key \<open>k\<close> of \<open>a\<close>, \<open>b\<close> is an object with the own key \<open>k\<close> and
  \<open>_deepEqual(a[k], b[k])\<close> is \<open>true\<close>.
\<close>

definition claimed_condition :: "jsval \<Rightarrow> jsval \<Rightarrow> bool" where
  "claimed_condition a b \<longleftrightarrow>
     strict_eq a b \<or>
     (case (Object_keys a, Object_keys b) of
        (Inr keys1, Inr keys2) \<Rightarrow>
          length keys1 = length keys2 \<and>
          list_all
            (\<lambda>(k, v). case own_value b k of
                         Some w \<Rightarrow> priv_deepEqual v w = Inr True
                       | None \<Rightarrow> False)
            (for_in a)
      | _ \<Rightarrow> False)"

text \<open>
  Two values are structurally identical when they differ in the addresses of their
  objects only. An object has distinct keys.
\<close>

fun shape :: "jsval \<Rightarrow> jsval" where
  "shape (JObj _ fs) = JObj 0 (map (\<lambda>kv. (fst kv, shape (snd kv))) fs)"
| "shape v = v"

fun distinct_keys :: "jsval \<Rightarrow> bool" where
  "distinct_keys (JObj _ fs) =
     (distinct (map fst fs) \<and> list_all (\<lambda>kv. distinct_keys (snd kv)) fs)"
| "distinct_keys _ = True"

text \<open>
  A host for the worked examples: it reads no string as a number, converts no object to
  a primitive, accepts no source it is asked about and matches nothing.
\<close>

definition sample_host :: host where
  "sample_host =
     \<lparr>StringToNumber = (\<lambda>s. NaN),
      ToPrimitive = (\<lambda>v. Inl TypeError),
      valid_source = (\<lambda>t. False),
      regexp_match = (\<lambda>s source flags. False),
      call_match = (\<lambda>m p. Inl TypeError)\<rparr>"

section \<open>Structural equality: properties\<close>


lemma every_True_iff:
  "every body xs = Inr True \<longleftrightarrow> list_all (\<lambda>x. body x = Inr True) xs"
  by (induction xs) (auto split: sum.splits bool.splits)

lemma every_returns:
  "list_all (\<lambda>x. \<exists>r. body x = Inr r) xs \<Longrightarrow> \<exists>r. every body xs = Inr r"
  by (induction xs) (auto split: sum.splits bool.splits)

lemma deepEqual_True_iff: "priv_deepEqual a b = Inr True \<longleftrightarrow> in_condition a b"
proof -
  have body: "(case lookup_in b k of Inl e \<Rightarrow> Inl e | Inr None \<Rightarrow> Inr False
                | Inr (Some w) \<Rightarrow> priv_deepEqual v w) = Inr True
              \<longleftrightarrow> (case lookup_in b k of Inr (Some w) \<Rightarrow> priv_deepEqual v w = Inr True
                   | _ \<Rightarrow> False)" for k v
    by (simp split: sum.splits option.splits)
  show ?thesis
    unfolding in_condition_def
    by (subst priv_deepEqual.simps)
       (simp add: every_True_iff body case_prod_unfold split: sum.splits)
qed

lemma plain_data_lookup:
  "plain_data b \<Longrightarrow> lookup_in b k = Inr (Some w) \<Longrightarrow> plain_data w"
  by (cases b) (auto simp: inherited_def list_all_iff dest!: map_of_SomeD split: option.splits if_splits)

lemma plain_data_for_in: "plain_data a \<Longrightarrow> (k, v) \<in> set (for_in a) \<Longrightarrow> plain_data v"
  by (cases a) (auto simp: list_all_iff)

lemma plain_data_keys: "plain_data a \<Longrightarrow> Object_keys a = Inr (map fst (for_in a))"
  by (cases a) auto

lemma plain_data_lookup_defined:
  "plain_data b \<Longrightarrow> for_in b \<noteq> [] \<Longrightarrow> \<exists>r. lookup_in b k = Inr r"
  by (cases b) (auto split: option.splits)

lemma deepEqual_plain_returns:
  "plain_data a \<Longrightarrow> plain_data b \<Longrightarrow> \<exists>r. priv_deepEqual a b = Inr r"
proof (induction a b rule: priv_deepEqual.induct)
  case (1 obj1 obj2)
  show ?case
  proof (cases "strict_eq obj1 obj2")
    case True
    then show ?thesis by (subst priv_deepEqual.simps) auto
  next
    case ne: False
    show ?thesis
    proof (cases "length (for_in obj1) = length (for_in obj2)")
      case False
      with ne 1 show ?thesis
        by (subst priv_deepEqual.simps) (auto simp: plain_data_keys)
    next
      case len: True
      have "\<exists>r. (case lookup_in obj2 k of Inl e \<Rightarrow> Inl e | Inr None \<Rightarrow> Inr False
                | Inr (Some w) \<Rightarrow> priv_deepEqual v w) = Inr r"
        if mem: "(k, v) \<in> set (for_in obj1)" for k v
      proof -
        from mem len have "for_in obj2 \<noteq> []" by auto
        with 1(3) obtain r where r: "lookup_in obj2 k = Inr r"
          using plain_data_lookup_defined by blast
        show ?thesis
        proof (cases r)
          case None
          with r show ?thesis by auto
        next
          case (Some w)
          have "\<exists>r. priv_deepEqual v w = Inr r"
          proof (rule "1.IH")
            show "\<not> strict_eq obj1 obj2" by (rule ne)
            show "Object_keys obj1 = Inr (map fst (for_in obj1))" using 1(2) by (rule plain_data_keys)
            show "Object_keys obj2 = Inr (map fst (for_in obj2))" using 1(3) by (rule plain_data_keys)
            show "\<not> length (map fst (for_in obj1)) \<noteq> length (map fst (for_in obj2))" using len by simp
            show "(k, v) \<in> set (for_in obj1)" by (rule mem)
            show "(k, v) = (k, v)" ..
            show "lookup_in obj2 k = Inr r" by (rule r)
            show "r = Some w" by (rule Some)
            show "plain_data v" using 1(2) mem by (rule plain_data_for_in)
            show "plain_data w" using 1(3) r Some plain_data_lookup by blast
          qed
          with r Some show ?thesis by auto
        qed
      qed
      then have "list_all (\<lambda>x. \<exists>r. (case x of (key, v1) \<Rightarrow>
                   case lookup_in obj2 key of Inl e \<Rightarrow> Inl e | Inr None \<Rightarrow> Inr False
                   | Inr (Some v2) \<Rightarrow> priv_deepEqual v1 v2) = Inr r) (for_in obj1)"
        by (auto simp: list_all_iff)
      from every_returns [OF this] ne len 1(2,3) show ?thesis
        by (subst priv_deepEqual.simps) (auto simp: plain_data_keys)
    qed
  qed
qed


lemma num_strict_eq_sym: "num_strict_eq x y = num_strict_eq y x"
  by (cases x; cases y) auto

lemma strict_eq_sym: "strict_eq a b = strict_eq b a"
  by (cases a; cases b) (auto simp: num_strict_eq_sym)

lemma simple_record_plain: "simple_record v \<Longrightarrow> plain_data v"
proof (induction v rule: simple_record.induct)
  case (1 a fs)
  then show ?case by (auto simp: list_all_iff)
qed auto

lemma simple_record_for_in:
  "simple_record a \<Longrightarrow> (k, v) \<in> set (for_in a) \<Longrightarrow> simple_record v \<and> k \<notin> set object_prototype_names"
  by (cases a) (auto simp: list_all_iff)

lemma simple_record_own:
  "simple_record a \<Longrightarrow> (k, v) \<in> set (for_in a) \<Longrightarrow> lookup_in a k = Inr (Some v)"
  by (cases a) auto

lemma lookup_in_own:
  "lookup_in b k = Inr (Some w) \<Longrightarrow> k \<notin> set object_prototype_names \<Longrightarrow> (k, w) \<in> set (for_in b)"
  by (cases b) (auto simp: inherited_def dest: map_of_SomeD split: option.splits)

lemma simple_record_distinct: "simple_record a \<Longrightarrow> distinct (map fst (for_in a))"
  by (cases a) auto

lemma matched_entry:
  "(case r of Inr (Some w) \<Rightarrow> P w | _ \<Rightarrow> False) \<longleftrightarrow> (\<exists>w. r = Inr (Some w) \<and> P w)"
  by (auto split: sum.splits option.splits)

lemma in_condition_unfold:
  "in_condition a b \<longleftrightarrow>
     strict_eq a b \<or>
     (\<exists>keys1 keys2. Object_keys a = Inr keys1 \<and> Object_keys b = Inr keys2 \<and>
        length keys1 = length keys2 \<and>
        (\<forall>(k, v) \<in> set (for_in a).
            \<exists>w. lookup_in b k = Inr (Some w) \<and> priv_deepEqual v w = Inr True))"
  unfolding in_condition_def
  by (cases "Object_keys a"; cases "Object_keys b")
     (simp_all add: list_all_iff matched_entry case_prod_unfold)

lemma deepEqual_sym_True:
  "simple_record a \<Longrightarrow> simple_record b \<Longrightarrow> priv_deepEqual a b = Inr True
   \<Longrightarrow> priv_deepEqual b a = Inr True"
proof (induction "rank a + rank b" arbitrary: a b rule: less_induct)
  case less
  note sa = \<open>simple_record a\<close> and sb = \<open>simple_record b\<close>
  from less.prems(3) have cond: "in_condition a b" by (simp add: deepEqual_True_iff)
  show ?case
  proof (cases "strict_eq a b")
    case True
    then have "strict_eq b a" by (simp add: strict_eq_sym)
    then show ?thesis by (subst deepEqual_True_iff) (simp add: in_condition_unfold)
  next
    case False
    have ka: "Object_keys a = Inr (map fst (for_in a))"
      and kb: "Object_keys b = Inr (map fst (for_in b))"
      using sa sb by (simp_all add: plain_data_keys simple_record_plain)
    from cond False ka kb have len: "length (for_in a) = length (for_in b)"
      and matched: "\<And>k v. (k, v) \<in> set (for_in a) \<Longrightarrow>
              \<exists>w. lookup_in b k = Inr (Some w) \<and> priv_deepEqual v w = Inr True"
      by (auto simp: in_condition_unfold)
    have sub: "fst ` set (for_in a) \<subseteq> fst ` set (for_in b)"
    proof
      fix k assume "k \<in> fst ` set (for_in a)"
      then obtain v where kv: "(k, v) \<in> set (for_in a)" by auto
      with matched obtain w where "lookup_in b k = Inr (Some w)" by blast
      moreover from sa kv have "k \<notin> set object_prototype_names"
        by (simp add: simple_record_for_in)
      ultimately have "(k, w) \<in> set (for_in b)" by (rule lookup_in_own)
      then show "k \<in> fst ` set (for_in b)" by force
    qed
    have "card (fst ` set (for_in a)) = card (fst ` set (for_in b))"
      using simple_record_distinct [OF sa] simple_record_distinct [OF sb] len
      by (metis distinct_card length_map set_map)
    with sub have same: "fst ` set (for_in a) = fst ` set (for_in b)"
      by (simp add: card_subset_eq)
    have "\<exists>v. lookup_in a k = Inr (Some v) \<and> priv_deepEqual w v = Inr True"
      if kw: "(k, w) \<in> set (for_in b)" for k w
    proof -
      from kw same obtain v where kv: "(k, v) \<in> set (for_in a)" by force
      from matched [OF kv] obtain w' where w': "lookup_in b k = Inr (Some w')"
        and eq: "priv_deepEqual v w' = Inr True" by blast
      from sb kw have "lookup_in b k = Inr (Some w)" by (rule simple_record_own)
      with w' have "w' = w" by simp
      have "rank v + rank w < rank a + rank b"
      proof -
        from kv sa have "rank v < rank a" by (cases a) (auto dest: rank_own_value)
        moreover from kw sb have "rank w < rank b" by (cases b) (auto dest: rank_own_value)
        ultimately show ?thesis by simp
      qed
      moreover have "simple_record v" "simple_record w"
        using sa kv sb kw by (simp_all add: simple_record_for_in)
      ultimately have "priv_deepEqual w v = Inr True"
        using eq \<open>w' = w\<close> less.hyps [of v w] by simp
      moreover from sa kv have "lookup_in a k = Inr (Some v)" by (rule simple_record_own)
      ultimately show ?thesis by blast
    qed
    with ka kb len show ?thesis
      by (subst deepEqual_True_iff) (auto simp: in_condition_unfold)
  qed
qed

lemma deepEqual_sym:
  assumes "simple_record a" "simple_record b"
  shows "priv_deepEqual a b = priv_deepEqual b a"
proof -
  obtain r where r: "priv_deepEqual a b = Inr r"
    using deepEqual_plain_returns assms simple_record_plain by blast
  obtain r' where r': "priv_deepEqual b a = Inr r'"
    using deepEqual_plain_returns assms simple_record_plain by blast
  have "r = True \<longleftrightarrow> r' = True"
    using deepEqual_sym_True [OF assms] deepEqual_sym_True [OF assms(2,1)] r r' by auto
  with r r' show ?thesis by simp
qed



text \<open>Where the loop stops: at the first key that is not settled as \<open>true\<close>.\<close>

lemma every_False_iff:
  "every body xs = Inr False \<longleftrightarrow>
     (\<exists>ys x zs. xs = ys @ x # zs \<and> list_all (\<lambda>y. body y = Inr True) ys \<and> body x = Inr False)"
proof (induction xs)
  case Nil
  then show ?case by simp
next
  case (Cons a xs)
  show ?case
  proof (cases "body a")
    case (Inl e)
    have "\<not> (\<exists>ys x zs. a # xs = ys @ x # zs \<and> list_all (\<lambda>y. body y = Inr True) ys \<and>
               body x = Inr False)"
    proof
      assume "\<exists>ys x zs. a # xs = ys @ x # zs \<and> list_all (\<lambda>y. body y = Inr True) ys \<and>
               body x = Inr False"
      then obtain ys x zs where *: "a # xs = ys @ x # zs"
        "list_all (\<lambda>y. body y = Inr True) ys" "body x = Inr False" by blast
      then show False using Inl by (cases ys) auto
    qed
    with Inl show ?thesis by simp
  next
    case (Inr r)
    show ?thesis
    proof (cases r)
      case True
      have "(\<exists>ys x zs. a # xs = ys @ x # zs \<and> list_all (\<lambda>y. body y = Inr True) ys \<and>
               body x = Inr False)
            \<longleftrightarrow> (\<exists>ys x zs. xs = ys @ x # zs \<and> list_all (\<lambda>y. body y = Inr True) ys \<and>
               body x = Inr False)" (is "?L \<longleftrightarrow> ?R")
      proof
        assume ?L
        then obtain ys x zs where *: "a # xs = ys @ x # zs"
          "list_all (\<lambda>y. body y = Inr True) ys" "body x = Inr False" by blast
        with Inr True obtain ys' where "ys = a # ys'" by (cases ys) auto
        with * show ?R by auto
      next
        assume ?R
        then obtain ys x zs where *: "xs = ys @ x # zs"
          "list_all (\<lambda>y. body y = Inr True) ys" "body x = Inr False" by blast
        then have "a # xs = (a # ys) @ x # zs \<and> list_all (\<lambda>y. body y = Inr True) (a # ys)
                   \<and> body x = Inr False"
          using Inr True by simp
        then show ?L by blast
      qed
      with Inr True Cons.IH show ?thesis by simp
    next
      case False
      have "a # xs = [] @ a # xs \<and> list_all (\<lambda>y. body y = Inr True) [] \<and> body a = Inr False"
        using Inr False by simp
      then have "\<exists>ys x zs. a # xs = ys @ x # zs \<and> list_all (\<lambda>y. body y = Inr True) ys \<and>
               body x = Inr False" by blast
      with Inr False show ?thesis by simp
    qed
  qed
qed

lemma every_raises_iff:
  "every body xs = Inl e \<longleftrightarrow>
     (\<exists>ys x zs. xs = ys @ x # zs \<and> list_all (\<lambda>y. body y = Inr True) ys \<and> body x = Inl e)"
proof (induction xs)
  case Nil
  then show ?case by simp
next
  case (Cons a xs)
  show ?case
  proof (cases "body a")
    case (Inl e')
    show ?thesis
    proof
      assume "every body (a # xs) = Inl e"
      with Inl have "e' = e" by simp
      with Inl have "a # xs = [] @ a # xs \<and> list_all (\<lambda>y. body y = Inr True) [] \<and>
                     body a = Inl e" by simp
      then show "\<exists>ys x zs. a # xs = ys @ x # zs \<and> list_all (\<lambda>y. body y = Inr True) ys \<and>
               body x = Inl e" by blast
    next
      assume "\<exists>ys x zs. a # xs = ys @ x # zs \<and> list_all (\<lambda>y. body y = Inr True) ys \<and>
               body x = Inl e"
      then obtain ys x zs where *: "a # xs = ys @ x # zs"
        "list_all (\<lambda>y. body y = Inr True) ys" "body x = Inl e" by blast
      with Inl have "ys = []" by (cases ys) auto
      with * Inl show "every body (a # xs) = Inl e" by simp
    qed
  next
    case (Inr r)
    show ?thesis
    proof (cases r)
      case True
      have "(\<exists>ys x zs. a # xs = ys @ x # zs \<and> list_all (\<lambda>y. body y = Inr True) ys \<and>
               body x = Inl e)
            \<longleftrightarrow> (\<exists>ys x zs. xs = ys @ x # zs \<and> list_all (\<lambda>y. body y = Inr True) ys \<and>
               body x = Inl e)" (is "?L \<longleftrightarrow> ?R")
      proof
        assume ?L
        then obtain ys x zs where *: "a # xs = ys @ x # zs"
          "list_all (\<lambda>y. body y = Inr True) ys" "body x = Inl e" by blast
        with Inr True obtain ys' where "ys = a # ys'" by (cases ys) auto
        with * show ?R by auto
      next
        assume ?R
        then obtain ys x zs where *: "xs = ys @ x # zs"
          "list_all (\<lambda>y. body y = Inr True) ys" "body x = Inl e" by blast
        then have "a # xs = (a # ys) @ x # zs \<and> list_all (\<lambda>y. body y = Inr True) (a # ys)
                   \<and> body x = Inl e"
          using Inr True by simp
        then show ?L by blast
      qed
      with Inr True Cons.IH show ?thesis by simp
    next
      case False
      have "\<not> (\<exists>ys x zs. a # xs = ys @ x # zs \<and> list_all (\<lambda>y. body y = Inr True) ys \<and>
               body x = Inl e)"
      proof
        assume "\<exists>ys x zs. a # xs = ys @ x # zs \<and> list_all (\<lambda>y. body y = Inr True) ys \<and>
               body x = Inl e"
        then obtain ys x zs where *: "a # xs = ys @ x # zs"
          "list_all (\<lambda>y. body y = Inr True) ys" "body x = Inl e" by blast
        then show False using Inr False by (cases ys) auto
      qed
      with Inr False show ?thesis by simp
    qed
  qed
qed

lemma lookup_in_own_key:
  "k \<notin> set object_prototype_names \<Longrightarrow>
   lookup_in b k = (if is_object b then Inr (own_value b k) else Inl TypeError)"
  by (cases b) (auto simp: inherited_def split: option.splits)

lemma deepEqual_own:
  assumes "no_inherited_keys a"
  shows "priv_deepEqual a b =
     (if strict_eq a b then Inr True
      else case Object_keys a of
        Inl e \<Rightarrow> Inl e
      | Inr keys1 \<Rightarrow>
         (case Object_keys b of
            Inl e \<Rightarrow> Inl e
          | Inr keys2 \<Rightarrow>
             if length keys1 \<noteq> length keys2 then Inr False
             else every (compare_key b) (for_in a)))"
proof -
  have "every (\<lambda>(key, v1). case lookup_in b key of Inl e \<Rightarrow> Inl e | Inr None \<Rightarrow> Inr False
                 | Inr (Some v2) \<Rightarrow> priv_deepEqual v1 v2) (for_in a)
        = every (compare_key b) (for_in a)"
  proof (rule every_cong [OF refl])
    fix x assume "x \<in> set (for_in a)"
    with assms have "fst x \<notin> set object_prototype_names"
      by (auto simp: no_inherited_keys_def list_all_iff)
    then show "(case x of (key, v1) \<Rightarrow> case lookup_in b key of Inl e \<Rightarrow> Inl e
                 | Inr None \<Rightarrow> Inr False | Inr (Some v2) \<Rightarrow> priv_deepEqual v1 v2)
               = compare_key b x"
      by (cases x) (simp add: lookup_in_own_key compare_key_def split: option.splits)
  qed
  then show ?thesis by (subst priv_deepEqual.simps) (simp split: sum.splits)
qed


lemma compare_key_True_iff:
  "compare_key b (k, v) = Inr True
     \<longleftrightarrow> (\<exists>w. own_value b k = Some w \<and> priv_deepEqual v w = Inr True)"
  by (cases b) (auto simp: compare_key_def split: option.splits)

lemma compare_key_False_iff:
  "compare_key b (k, v) = Inr False
     \<longleftrightarrow> is_object b \<and>
         (own_value b k = None \<or> (\<exists>w. own_value b k = Some w \<and> priv_deepEqual v w = Inr False))"
  by (auto simp: compare_key_def split: option.splits)

lemma compare_key_raises_iff:
  "compare_key b (k, v) = Inl TypeError
     \<longleftrightarrow> \<not> is_object b \<or>
         (\<exists>w. own_value b k = Some w \<and> priv_deepEqual v w = Inl TypeError)"
  by (auto simp: compare_key_def split: option.splits)

lemma claimed_condition_compare:
  "claimed_condition a b \<longleftrightarrow>
     strict_eq a b \<or>
     (\<exists>keys1 keys2. Object_keys a = Inr keys1 \<and> Object_keys b = Inr keys2 \<and>
        length keys1 = length keys2 \<and> list_all (\<lambda>kv. compare_key b kv = Inr True) (for_in a))"
proof -
  have "(case own_value b k of Some w \<Rightarrow> priv_deepEqual v w = Inr True | None \<Rightarrow> False)
        \<longleftrightarrow> compare_key b (k, v) = Inr True" for k v
    by (auto simp: compare_key_True_iff split: option.splits)
  then have "list_all (\<lambda>(k, v). case own_value b k of
                 Some w \<Rightarrow> priv_deepEqual v w = Inr True | None \<Rightarrow> False) (for_in a)
             \<longleftrightarrow> list_all (\<lambda>kv. compare_key b kv = Inr True) (for_in a)"
    by (auto simp: list_all_iff)
  then show ?thesis
    unfolding claimed_condition_def
    by (cases "Object_keys a"; cases "Object_keys b") simp_all
qed

lemma deepEqual_own_True:
  assumes "no_inherited_keys a"
  shows "priv_deepEqual a b = Inr True \<longleftrightarrow> claimed_condition a b"
  unfolding deepEqual_own [OF assms] claimed_condition_compare
  by (cases "Object_keys a"; cases "Object_keys b") (auto simp: every_True_iff)

lemma deepEqual_own_False:
  assumes "no_inherited_keys a"
  shows "priv_deepEqual a b = Inr False \<longleftrightarrow>
     \<not> strict_eq a b \<and>
     (\<exists>keys1 keys2. Object_keys a = Inr keys1 \<and> Object_keys b = Inr keys2 \<and>
        (length keys1 \<noteq> length keys2 \<or>
         (\<exists>ys kv zs. for_in a = ys @ kv # zs \<and>
            list_all (\<lambda>y. compare_key b y = Inr True) ys \<and> compare_key b kv = Inr False)))"
  unfolding deepEqual_own [OF assms]
  by (cases "Object_keys a"; cases "Object_keys b") (auto simp: every_False_iff)

lemma deepEqual_own_raises:
  assumes "no_inherited_keys a"
  shows "priv_deepEqual a b = Inl TypeError \<longleftrightarrow>
     \<not> strict_eq a b \<and>
     (Object_keys a = Inl TypeError \<or> Object_keys b = Inl TypeError \<or>
      (\<exists>keys1 keys2. Object_keys a = Inr keys1 \<and> Object_keys b = Inr keys2 \<and>
         length keys1 = length keys2 \<and>
         (\<exists>ys kv zs. for_in a = ys @ kv # zs \<and>
            list_all (\<lambda>y. compare_key b y = Inr True) ys \<and> compare_key b kv = Inl TypeError)))"
proof -
  have e: "x = TypeError" for x :: host_error by (cases x) simp
  show ?thesis
    unfolding deepEqual_own [OF assms]
    by (cases "Object_keys a"; cases "Object_keys b")
       (auto simp: every_raises_iff e [of "_ :: host_error"])
qed

lemma deepEqual_same_shape:
  "distinct_keys a \<Longrightarrow> shape a = shape b \<Longrightarrow> priv_deepEqual a b = Inr True"
proof (induction "rank a" arbitrary: a b rule: less_induct)
  case less
  show ?case
  proof (cases a)
    case (JObj p fs)
    with less.prems(2) obtain q gs where b: "b = JObj q gs"
      and m: "map (\<lambda>kv. (fst kv, shape (snd kv))) fs = map (\<lambda>kv. (fst kv, shape (snd kv))) gs"
      by (cases b) auto
    from m have len: "length fs = length gs" by (rule map_eq_imp_length_eq)
    from m have keys: "map fst fs = map fst gs"
      by (metis (mono_tags, lifting) fst_conv list.map_comp map_eq_conv o_apply)
    have dg: "distinct (map fst gs)" using less.prems(1) JObj keys by simp
    have "\<exists>w. lookup_in b k = Inr (Some w) \<and> priv_deepEqual v w = Inr True"
      if kv: "(k, v) \<in> set fs" for k v
    proof -
      from kv obtain i where i: "i < length fs" "fs ! i = (k, v)"
        by (auto simp: in_set_conv_nth)
      obtain k' w where g: "gs ! i = (k', w)" by (cases "gs ! i")
      from m i len have "(fst (fs ! i), shape (snd (fs ! i))) = (fst (gs ! i), shape (snd (gs ! i)))"
        by (metis (no_types, lifting) nth_map)
      with i g have kk: "k' = k" and sh: "shape v = shape w" by simp_all
      from i len g kk have "(k, w) \<in> set gs" by (metis nth_mem)
      with dg have "map_of gs k = Some w" by simp
      then have look: "lookup_in b k = Inr (Some w)" using b by simp
      have "rank v < rank a" using kv JObj by (auto dest: rank_own_value)
      moreover have "distinct_keys v" using less.prems(1) JObj kv by (auto simp: list_all_iff)
      ultimately have "priv_deepEqual v w = Inr True" using sh less.hyps by blast
      with look show ?thesis by blast
    qed
    then show ?thesis
      using JObj b len by (subst deepEqual_True_iff) (auto simp: in_condition_unfold)
  next
    case JUndefined
    with less.prems(2) have "b = a" by (cases b) auto
    with JUndefined show ?thesis by (simp add: priv_deepEqual.simps)
  next
    case JNull
    with less.prems(2) have "b = a" by (cases b) auto
    with JNull show ?thesis by (simp add: priv_deepEqual.simps)
  next
    case (JBool x)
    with less.prems(2) have "b = a" by (cases b) auto
    with JBool show ?thesis by (simp add: priv_deepEqual.simps)
  next
    case (JNum x)
    with less.prems(2) have "b = a" by (cases b) auto
    with JNum show ?thesis by (simp add: priv_deepEqual.simps)
  next
    case (JStr x)
    with less.prems(2) have "b = a" by (cases b) auto
    with JStr show ?thesis by (simp add: priv_deepEqual.simps)
  next
    case (JBuiltin x)
    with less.prems(2) have "b = a" by (cases b) auto
    with JBuiltin show ?thesis by (simp add: priv_deepEqual.simps)
  qed
qed

section \<open>The claims about structural equality\<close>

text \<open>
  C1, as amended. Let no enumerable key of \<open>a\<close> be the name of a property inherited
  from \<open>Object.prototype\<close>. Then \<open>_deepEqual(a, b)\<close> returns \<open>true\<close> if and only if
  \<open>a\<close> and \<open>b\<close> are the identical reference, or the count of own enumerable keys of
  \<open>a\<close> equals that of \<open>b\<close> and, for each own enumerable key \<open>k\<close> of \<open>a\<close>, \<open>b\<close> is
  an object with the own key \<open>k\<close> and \<open>_deepEqual(a[k], b[k])\<close> is \<open>true\<close>. Otherwise it returns
  \<open>false\<close> or raises the host's \<open>TypeError\<close>, as the first key of \<open>a\<close> decides at which
  the condition fails: it returns \<open>false\<close> when the counts differ, when \<open>b\<close> is an object
  that lacks that key, or when the comparison of the two values at that key returns
  \<open>false\<close>; it raises when \<open>Object.keys\<close> is applied to \<open>null\<close> or \<open>undefined\<close>, or
  when at that key \<open>b\<close> is a primitive or the comparison of the two values raises. On
  finite values built
  from plain objects, numbers and Booleans it never raises. Values that are the identical
  reference give \<open>true\<close>, and so do finite records that are structurally identical;
  two distinct records with differing key counts give \<open>false\<close>.
\<close>

theorem deepEqual_characterisation:
  "(no_inherited_keys a \<longrightarrow>
      (priv_deepEqual a b = Inr True \<longleftrightarrow> claimed_condition a b)) \<and>
   (no_inherited_keys a \<longrightarrow>
      (priv_deepEqual a b = Inr False \<longleftrightarrow>
         \<not> strict_eq a b \<and>
         (\<exists>keys1 keys2. Object_keys a = Inr keys1 \<and> Object_keys b = Inr keys2 \<and>
            (length keys1 \<noteq> length keys2 \<or>
             (\<exists>ys kv zs. for_in a = ys @ kv # zs \<and>
                list_all (\<lambda>y. compare_key b y = Inr True) ys \<and>
                compare_key b kv = Inr False))))) \<and>
   (no_inherited_keys a \<longrightarrow>
      (priv_deepEqual a b = Inl TypeError \<longleftrightarrow>
         \<not> strict_eq a b \<and>
         (Object_keys a = Inl TypeError \<or> Object_keys b = Inl TypeError \<or>
          (\<exists>keys1 keys2. Object_keys a = Inr keys1 \<and> Object_keys b = Inr keys2 \<and>
             length keys1 = length keys2 \<and>
             (\<exists>ys kv zs. for_in a = ys @ kv # zs \<and>
                list_all (\<lambda>y. compare_key b y = Inr True) ys \<and>
                compare_key b kv = Inl TypeError))))) \<and>
   (compare_key b (k, v) = Inr True \<longleftrightarrow>
      (\<exists>w. own_value b k = Some w \<and> priv_deepEqual v w = Inr True)) \<and>
   (compare_key b (k, v) = Inr False \<longleftrightarrow>
      is_object b \<and>
      (own_value b k = None \<or> (\<exists>w. own_value b k = Some w \<and> priv_deepEqual v w = Inr False))) \<and>
   (compare_key b (k, v) = Inl TypeError \<longleftrightarrow>
      \<not> is_object b \<or> (\<exists>w. own_value b k = Some w \<and> priv_deepEqual v w = Inl TypeError)) \<and>
   (plain_data a \<and> plain_data b \<longrightarrow> (\<exists>r. priv_deepEqual a b = Inr r)) \<and>
   (strict_eq a b \<longrightarrow> priv_deepEqual a b = Inr True) \<and>
   (distinct_keys a \<and> shape a = shape b \<longrightarrow> priv_deepEqual a b = Inr True) \<and>
   (p \<noteq> q \<and> length fs \<noteq> length gs \<longrightarrow>
      priv_deepEqual (JObj p fs) (JObj q gs) = Inr False)"
proof (intro conjI impI)
  show "priv_deepEqual a b = Inr True \<longleftrightarrow> claimed_condition a b" if "no_inherited_keys a"
    using that by (rule deepEqual_own_True)
  show "priv_deepEqual a b = Inr False \<longleftrightarrow>
         \<not> strict_eq a b \<and>
         (\<exists>keys1 keys2. Object_keys a = Inr keys1 \<and> Object_keys b = Inr keys2 \<and>
            (length keys1 \<noteq> length keys2 \<or>
             (\<exists>ys kv zs. for_in a = ys @ kv # zs \<and>
                list_all (\<lambda>y. compare_key b y = Inr True) ys \<and>
                compare_key b kv = Inr False)))" if "no_inherited_keys a"
    using that by (rule deepEqual_own_False)
  show "priv_deepEqual a b = Inl TypeError \<longleftrightarrow>
         \<not> strict_eq a b \<and>
         (Object_keys a = Inl TypeError \<or> Object_keys b = Inl TypeError \<or>
          (\<exists>keys1 keys2. Object_keys a = Inr keys1 \<and> Object_keys b = Inr keys2 \<and>
             length keys1 = length keys2 \<and>
             (\<exists>ys kv zs. for_in a = ys @ kv # zs \<and>
                list_all (\<lambda>y. compare_key b y = Inr True) ys \<and>
                compare_key b kv = Inl TypeError)))" if "no_inherited_keys a"
    using that by (rule deepEqual_own_raises)
  show "compare_key b (k, v) = Inr True \<longleftrightarrow>
      (\<exists>w. own_value b k = Some w \<and> priv_deepEqual v w = Inr True)"
    by (rule compare_key_True_iff)
  show "compare_key b (k, v) = Inr False \<longleftrightarrow>
      is_object b \<and>
      (own_value b k = None \<or> (\<exists>w. own_value b k = Some w \<and> priv_deepEqual v w = Inr False))"
    by (rule compare_key_False_iff)
  show "compare_key b (k, v) = Inl TypeError \<longleftrightarrow>
      \<not> is_object b \<or> (\<exists>w. own_value b k = Some w \<and> priv_deepEqual v w = Inl TypeError)"
    by (rule compare_key_raises_iff)
  show "\<exists>r. priv_deepEqual a b = Inr r" if "plain_data a \<and> plain_data b"
    using that deepEqual_plain_returns by blast
  show "priv_deepEqual a b = Inr True" if "strict_eq a b"
    using that by (subst priv_deepEqual.simps) simp
  show "priv_deepEqual a b = Inr True" if "distinct_keys a \<and> shape a = shape b"
    using that deepEqual_same_shape by blast
  show "priv_deepEqual (JObj p fs) (JObj q gs) = Inr False"
    if "p \<noteq> q \<and> length fs \<noteq> length gs"
    using that by (subst priv_deepEqual.simps) simp
qed

theorem deepEqual_characterisation_witness:
  "no_inherited_keys (JObj 1 [(''a'', JNum (Finite 1))]) \<and>
   \<not> claimed_condition (JObj 1 [(''a'', JNum (Finite 1))])
        (JObj 2 [(''a'', JNum (Finite 1)), (''b'', JNum (Finite 2))]) \<and>
   priv_deepEqual (JObj 1 [(''a'', JNum (Finite 1))])
        (JObj 2 [(''a'', JNum (Finite 1)), (''b'', JNum (Finite 2))]) = Inr False \<and>
   plain_data (JObj 1 [(''a'', JNum (Finite 1))]) \<and>
   plain_data (JObj 2 [(''a'', JNum (Finite 1)), (''b'', JNum (Finite 2))]) \<and>
   strict_eq (JObj 1 [(''a'', JNum (Finite 1))]) (JObj 1 [(''a'', JNum (Finite 1))]) \<and>
   priv_deepEqual (JObj 1 [(''a'', JNum (Finite 1))]) (JObj 1 [(''a'', JNum (Finite 1))])
     = Inr True \<and>
   distinct_keys (JObj 3 [(''a'', JNum (Finite 1)), (''b'', JObj 4 [(''c'', JNum (Finite 2))])]) \<and>
   shape (JObj 3 [(''a'', JNum (Finite 1)), (''b'', JObj 4 [(''c'', JNum (Finite 2))])])
     = shape (JObj 5 [(''a'', JNum (Finite 1)), (''b'', JObj 6 [(''c'', JNum (Finite 2))])]) \<and>
   priv_deepEqual (JObj 3 [(''a'', JNum (Finite 1)), (''b'', JObj 4 [(''c'', JNum (Finite 2))])])
                  (JObj 5 [(''a'', JNum (Finite 1)), (''b'', JObj 6 [(''c'', JNum (Finite 2))])])
     = Inr True"
proof -
  let ?A = "JObj 1 [(''a'', JNum (Finite 1))]"
  let ?B = "JObj 2 [(''a'', JNum (Finite 1)), (''b'', JNum (Finite 2))]"
  let ?C = "JObj 3 [(''a'', JNum (Finite 1)), (''b'', JObj 4 [(''c'', JNum (Finite 2))])]"
  let ?D = "JObj 5 [(''a'', JNum (Finite 1)), (''b'', JObj 6 [(''c'', JNum (Finite 2))])]"
  have h: "no_inherited_keys ?A"
    by (simp add: no_inherited_keys_def object_prototype_names_def)
  have pd: "plain_data ?A" "plain_data ?B" by simp_all
  have se: "strict_eq ?A ?A" by simp
  have dk: "distinct_keys ?C" by simp
  have sh: "shape ?C = shape ?D" by simp
  note ab = deepEqual_characterisation [of ?A ?B "''a''" JNull 1 2 "[(''a'', JNum (Finite 1))]"
              "[(''a'', JNum (Finite 1)), (''b'', JNum (Finite 2))]"]
  have f: "priv_deepEqual ?A ?B = Inr False" using ab by simp
  from ab h have "priv_deepEqual ?A ?B = Inr True \<longleftrightarrow> claimed_condition ?A ?B"
    by blast
  with f have nc: "\<not> claimed_condition ?A ?B" by simp
  have t: "priv_deepEqual ?A ?A = Inr True"
    using deepEqual_characterisation [of ?A ?A] se by blast
  have s: "priv_deepEqual ?C ?D = Inr True"
    using deepEqual_characterisation [of ?C ?D] dk sh by blast
  from h nc f pd se t dk sh s show ?thesis by blast
qed

text \<open>
  The claim as stated fails where the comparison raises: \<open>{a: "x"}\<close> and \<open>{a: "y"}\<close>
  do not meet the condition, and the call does not return \<open>false\<close>: comparing the two
  strings evaluates \<open>"0" in "y"\<close>, a \<open>TypeError\<close>.
\<close>

theorem deepEqual_raises_counterexample:
  "no_inherited_keys (JObj 1 [(''a'', JStr ''x'')]) \<and>
   \<not> claimed_condition (JObj 1 [(''a'', JStr ''x'')]) (JObj 2 [(''a'', JStr ''y'')]) \<and>
   priv_deepEqual (JObj 1 [(''a'', JStr ''x'')]) (JObj 2 [(''a'', JStr ''y'')]) = Inl TypeError"
  by (simp add: claimed_condition_def no_inherited_keys_def object_prototype_names_def
        priv_deepEqual.simps show_nat.simps)

text \<open>
  C8, as amended. For records built from plain objects, numbers and Booleans, none of
  whose keys names a property inherited from \<open>Object.prototype\<close>, \<open>_deepEqual(a, b)\<close>
  and \<open>_deepEqual(b, a)\<close> return the same Boolean.
\<close>

theorem deepEqual_symmetric:
  "simple_record a \<and> simple_record b \<longrightarrow>
     priv_deepEqual a b = priv_deepEqual b a \<and> (\<exists>r. priv_deepEqual a b = Inr r)"
  using deepEqual_sym deepEqual_plain_returns simple_record_plain by blast

theorem deepEqual_symmetric_witness:
  "simple_record (JObj 1 [(''a'', JNum (Finite 1)), (''b'', JObj 3 [])]) \<and>
   simple_record (JObj 2 [(''b'', JObj 4 []), (''a'', JNum (Finite 5))]) \<and>
   priv_deepEqual (JObj 1 [(''a'', JNum (Finite 1)), (''b'', JObj 3 [])])
                  (JObj 2 [(''b'', JObj 4 []), (''a'', JNum (Finite 5))]) = Inr True \<and>
   priv_deepEqual (JObj 2 [(''b'', JObj 4 []), (''a'', JNum (Finite 5))])
                  (JObj 1 [(''a'', JNum (Finite 1)), (''b'', JObj 3 [])]) = Inr True"
  using deepEqual_symmetric
          [of "JObj 1 [(''a'', JNum (Finite 1)), (''b'', JObj 3 [])]"
              "JObj 2 [(''b'', JObj 4 []), (''a'', JNum (Finite 5))]"]
  by (simp add: object_prototype_names_def priv_deepEqual.simps)

text \<open>
  The claim as stated fails on \<open>{toString: 1}\<close> and \<open>{x: 1}\<close>: the \<open>in\<close> operator finds
  the inherited \<open>toString\<close> in the second record, and a number and a function both have
  no enumerable key; the other way round, \<open>x\<close> is missing from the first record. It
  fails on records with a string in them as well: \<open>{k: "x"}\<close> against \<open>{k: {0: 1}}\<close>
  returns \<open>false\<close>, and the other way round \<open>"0" in "x"\<close> raises a \<open>TypeError\<close>.
\<close>

theorem deepEqual_asymmetric_counterexample:
  "priv_deepEqual (JObj 1 [(''toString'', JNum (Finite 1))]) (JObj 2 [(''x'', JNum (Finite 1))])
     = Inr True \<and>
   priv_deepEqual (JObj 2 [(''x'', JNum (Finite 1))]) (JObj 1 [(''toString'', JNum (Finite 1))])
     = Inr False \<and>
   priv_deepEqual (JObj 3 [(''k'', JStr ''x'')])
                  (JObj 4 [(''k'', JObj 5 [(''0'', JNum (Finite 1))])]) = Inr False \<and>
   priv_deepEqual (JObj 4 [(''k'', JObj 5 [(''0'', JNum (Finite 1))])])
                  (JObj 3 [(''k'', JStr ''x'')]) = Inl TypeError"
  by (simp add: priv_deepEqual.simps inherited_def object_prototype_names_def show_nat.simps)

section \<open>The claims about the assertions\<close>

text \<open>Evaluating a default message never lets an assertion pass.\<close>

lemma raise_template_fails [simp]: "raise_template t \<noteq> Inr u"
  by (simp add: raise_template_def fail_def split: option.splits)

lemma fail_fails [simp]: "fail t \<noteq> Inr u"
  by (simp add: fail_def)

lemma raise_template_converts:
  "template_error t = None \<Longrightarrow> raise_template t = Inl (Error t)"
  by (simp add: raise_template_def fail_def)

lemma raise_template_raises:
  "template_error t = Some e \<Longrightarrow> raise_template t = Inl e"
  by (simp add: raise_template_def)

lemma paren_not_literal: "\<not> literal_char (CHR ''('')"
  by (simp add: literal_char_def)

lemma unclosed_not_literal: "unclosed_group t \<Longrightarrow> \<not> literal_source t"
  using paren_not_literal
  by (auto simp: unclosed_group_def literal_source_def list_all_iff list_ex_iff)

text \<open>
  C2, as amended. \<open>throws(fn, pattern)\<close> invokes \<open>fn\<close>. If \<open>fn\<close> returns normally,
  \<open>throws\<close> fails with the message \<open>Expected function to throw\<close>. If \<open>fn\<close> throws a
  value that is not an \<open>Error\<close> instance, \<open>throws\<close> passes. If \<open>fn\<close> throws an \<open>Error\<close>,
  the call \<open>error.message.match(pattern)\<close> decides: \<open>throws\<close> passes when the message
  matches and fails with a message that reports the actual error message and the
  expected pattern when it does not; when the call itself raises, a \<open>SyntaxError\<close> for
  a string pattern that is not a regular expression or a \<open>TypeError\<close> for a message
  that is not a string, that error is raised in place of either.
\<close>

theorem throws_contract:
  "(fn () = Inr () \<longrightarrow>
      throws h fn errorLike = Inl (Error [Lit ''Expected function to throw''])) \<and>
   (fn () = Inl (OtherValue v) \<longrightarrow> throws h fn errorLike = Inr ()) \<and>
   (fn () = Inl (ErrorInstance msg) \<and> message_match h msg errorLike = Inr True \<longrightarrow>
      throws h fn errorLike = Inr ()) \<and>
   (fn () = Inl (ErrorInstance msg) \<and> message_match h msg errorLike = Inr False \<and>
    convert_value msg = Inr () \<longrightarrow>
      throws h fn errorLike
        = Inl (Error [Lit ''Expected error message '', Shown (Value msg), Lit '' to match '',
                      Shown (Pattern errorLike)])) \<and>
   (fn () = Inl (ErrorInstance msg) \<and> message_match h msg errorLike = Inr False \<and>
    convert_value msg = Inl e \<longrightarrow> throws h fn errorLike = Inl e) \<and>
   (fn () = Inl (ErrorInstance msg) \<and> message_match h msg errorLike = Inl e \<longrightarrow>
      throws h fn errorLike = Inl e) \<and>
   convert_value (JStr s) = Inr () \<and>
   (literal_source t \<longrightarrow> message_match h (JStr s) (PString t) = Inr (contains t s)) \<and>
   (unclosed_group t \<longrightarrow> message_match h (JStr s) (PString t) = Inl SyntaxError) \<and>
   (\<not> literal_source t \<and> \<not> unclosed_group t \<longrightarrow>
      message_match h (JStr s) (PString t)
        = (if valid_source h t then Inr (regexp_match h s t []) else Inl SyntaxError)) \<and>
   message_match h (JStr s) (PRegExp source flags) = Inr (search h s source flags) \<and>
   message_match h JUndefined errorLike = Inl (HostError TypeError) \<and>
   message_match h (JNum n) errorLike = Inl (HostError TypeError) \<and>
   throws h (\<lambda>u. Inl (ErrorInstance (JStr ''boom''))) (PString ''boom'') = Inr () \<and>
   throws h (\<lambda>u. Inl (ErrorInstance (JStr ''boom''))) (PString ''nope'')
     = Inl (Error [Lit ''Expected error message '', Shown (Value (JStr ''boom'')),
                   Lit '' to match '', Shown (Pattern (PString ''nope''))])"
proof (intro conjI impI)
  show "message_match h (JStr s) (PString t) = Inl SyntaxError" if "unclosed_group t"
    using that unclosed_not_literal [OF that] by (simp add: compiles_def)
  show "throws h (\<lambda>u. Inl (ErrorInstance (JStr ''boom''))) (PString ''boom'') = Inr ()"
    by (simp add: throws_def compiles_def search_def literal_source_def literal_char_def)
  show "throws h (\<lambda>u. Inl (ErrorInstance (JStr ''boom''))) (PString ''nope'')
     = Inl (Error [Lit ''Expected error message '', Shown (Value (JStr ''boom'')),
                   Lit '' to match '', Shown (Pattern (PString ''nope''))])"
    by (simp add: throws_def compiles_def search_def literal_source_def literal_char_def
          raise_template_converts)
qed (simp_all add: throws_def fail_def compiles_def search_def raise_template_converts
       raise_template_raises)

theorem throws_contract_witness:
  "throws sample_host (\<lambda>u. Inr ()) (PString ''boom'')
     = Inl (Error [Lit ''Expected function to throw'']) \<and>
   throws sample_host (\<lambda>u. Inl (OtherValue (JStr ''boom''))) (PString ''nope'') = Inr () \<and>
   literal_source ''oo'' \<and>
   message_match sample_host (JStr ''boom'') (PString ''oo'') = Inr True \<and>
   throws sample_host (\<lambda>u. Inl (ErrorInstance (JStr ''boom''))) (PString ''oo'') = Inr () \<and>
   unclosed_group ''a(b'' \<and>
   message_match sample_host (JStr ''boom'') (PString ''a(b'') = Inl SyntaxError \<and>
   throws sample_host (\<lambda>u. Inl (ErrorInstance (JStr ''boom''))) (PString ''a(b'')
     = Inl SyntaxError \<and>
   message_match sample_host (JNum (Finite 42)) (PString ''boom'') = Inl (HostError TypeError) \<and>
   throws sample_host (\<lambda>u. Inl (ErrorInstance (JNum (Finite 42)))) (PString ''boom'')
     = Inl (HostError TypeError)"
proof -
  have lit: "literal_source ''oo''"
    by (simp add: literal_source_def literal_char_def)
  have unc: "unclosed_group ''a(b''"
    by (simp add: unclosed_group_def literal_char_def)
  have 1: "throws sample_host (\<lambda>u. Inr ()) (PString ''boom'')
             = Inl (Error [Lit ''Expected function to throw''])"
    using throws_contract [of "\<lambda>u. Inr ()" sample_host "PString ''boom''"] by simp
  have 2: "throws sample_host (\<lambda>u. Inl (OtherValue (JStr ''boom''))) (PString ''nope'') = Inr ()"
    using throws_contract [of "\<lambda>u. Inl (OtherValue (JStr ''boom''))" sample_host
                              "PString ''nope''" "JStr ''boom''"] by simp
  note oo = throws_contract [of "\<lambda>u. Inl (ErrorInstance (JStr ''boom''))" sample_host
                              "PString ''oo''" _ "JStr ''boom''" _ "''boom''" "''oo''"]
  have 3: "message_match sample_host (JStr ''boom'') (PString ''oo'') = Inr True"
    using oo lit by simp
  have 4: "throws sample_host (\<lambda>u. Inl (ErrorInstance (JStr ''boom''))) (PString ''oo'') = Inr ()"
    using oo 3 by simp
  note ab = throws_contract [of "\<lambda>u. Inl (ErrorInstance (JStr ''boom''))" sample_host
                              "PString ''a(b''" _ "JStr ''boom''" SyntaxError "''boom''"
                              "''a(b''"]
  have 5: "message_match sample_host (JStr ''boom'') (PString ''a(b'') = Inl SyntaxError"
    using ab unc by blast
  have 6: "throws sample_host (\<lambda>u. Inl (ErrorInstance (JStr ''boom''))) (PString ''a(b'')
             = Inl SyntaxError"
    using ab 5 by simp
  note nn = throws_contract [of "\<lambda>u. Inl (ErrorInstance (JNum (Finite 42)))" sample_host
                              "PString ''boom''" _ "JNum (Finite 42)" "HostError TypeError"
                              _ _ _ _ "Finite 42"]
  have 7: "message_match sample_host (JNum (Finite 42)) (PString ''boom'')
             = Inl (HostError TypeError)"
    using nn by blast
  have 8: "throws sample_host (\<lambda>u. Inl (ErrorInstance (JNum (Finite 42)))) (PString ''boom'')
             = Inl (HostError TypeError)"
    using nn 7 by simp
  from lit unc 1 2 3 4 5 6 7 8 show ?thesis by blast
qed

text \<open>
  The claim as stated fails on the pattern \<open>"("\<close>: the message \<open>boom\<close> does not match
  it, and \<open>throws\<close> does not fail with the mismatch message: compiling the pattern
  raises a \<open>SyntaxError\<close> inside the \<open>catch\<close> block.
\<close>

theorem throws_invalid_pattern_counterexample:
  "message_match sample_host (JStr ''boom'') (PString ''('') \<noteq> Inr True \<and>
   throws sample_host (\<lambda>u. Inl (ErrorInstance (JStr ''boom''))) (PString ''('')
     = Inl SyntaxError"
  by (simp add: throws_def compiles_def literal_source_def unclosed_group_def literal_char_def)




text \<open>
  C4, as amended. \<open>isEmpty\<close> dispatches on the shape of its target: for a string, an
  array or a \<open>NodeList\<close> it passes iff the length is 0; for a \<open>Map\<close> or a \<open>Set\<close> it
  passes iff the size is 0; in both cases it fails otherwise, saying that it expected the
  target to be empty; for any other shape it fails, saying that it did not know how to
  check whether the value is empty. Where the target cannot be converted to a string for
  the message (the object \<open>{toString: 1}\<close>, an array that holds it), the \<open>TypeError\<close>
  of the conversion is raised in place of the failure; strings, \<open>NodeList\<close>, \<open>Map\<close> and
  \<open>Set\<close> always convert. \<open>isEmpty("")\<close> passes, with no fallback failure after the
  shape-specific check, \<open>isEmpty("x")\<close> fails, \<open>isEmpty(new Map())\<close> passes and
  \<open>isEmpty\<close> of a one-entry \<open>Map\<close> fails.
\<close>

theorem isEmpty_dispatch:
  "(isEmpty (Plain (JStr s)) = Inr () \<longleftrightarrow> length s = 0) \<and>
   (isEmpty (Array xs) = Inr () \<longleftrightarrow> length xs = 0) \<and>
   (isEmpty (NodeList n) = Inr () \<longleftrightarrow> n = 0) \<and>
   (isEmpty (TMap entries) = Inr () \<longleftrightarrow> length entries = 0) \<and>
   (isEmpty (TSet members) = Inr () \<longleftrightarrow> length members = 0) \<and>
   (recognised t \<and> isEmpty t \<noteq> Inr () \<and> convert_shown (Target t) = Inr () \<longrightarrow>
      isEmpty t = Inl (Error [Lit ''Expected '', Shown (Target t), Lit '' to be empty''])) \<and>
   (\<not> recognised t \<and> convert_shown (Target t) = Inr () \<longrightarrow>
      isEmpty t = Inl (Error [Lit ''Didn't know how to check if '', Shown (Target t),
                              Lit '' is empty''])) \<and>
   (isEmpty t \<noteq> Inr () \<and> convert_shown (Target t) = Inl e \<longrightarrow> isEmpty t = Inl e) \<and>
   convert_shown (Target (Plain (JStr s))) = Inr () \<and>
   convert_shown (Target (NodeList n)) = Inr () \<and>
   convert_shown (Target (TMap entries)) = Inr () \<and>
   convert_shown (Target (TSet members)) = Inr () \<and>
   isEmpty (Plain (JStr '''')) = Inr () \<and>
   isEmpty (Plain (JStr ''x''))
     = Inl (Error [Lit ''Expected '', Shown (Target (Plain (JStr ''x''))), Lit '' to be empty'']) \<and>
   isEmpty (TMap []) = Inr () \<and>
   isEmpty (TMap [(JStr ''k'', JStr ''v'')])
     = Inl (Error [Lit ''Expected '', Shown (Target (TMap [(JStr ''k'', JStr ''v'')])),
                   Lit '' to be empty''])"
proof (intro conjI impI)
  show "isEmpty t = Inl (Error [Lit ''Expected '', Shown (Target t), Lit '' to be empty''])"
    if "recognised t \<and> isEmpty t \<noteq> Inr () \<and> convert_shown (Target t) = Inr ()"
    using that
    by (cases t rule: isEmpty.cases) (simp_all add: raise_template_converts split: if_splits)
  show "isEmpty t = Inl (Error [Lit ''Didn't know how to check if '', Shown (Target t),
                              Lit '' is empty''])"
    if "\<not> recognised t \<and> convert_shown (Target t) = Inr ()"
    using that by (cases t rule: isEmpty.cases) (simp_all add: raise_template_converts)
  show "isEmpty t = Inl e" if "isEmpty t \<noteq> Inr () \<and> convert_shown (Target t) = Inl e"
    using that
    by (cases t rule: isEmpty.cases) (simp_all add: raise_template_raises split: if_splits)
qed (simp_all add: raise_template_converts)

theorem isEmpty_dispatch_witness:
  "recognised (Array [JNull]) \<and> isEmpty (Array [JNull]) \<noteq> Inr () \<and>
   convert_shown (Target (Array [JNull])) = Inr () \<and>
   isEmpty (Array [JNull])
     = Inl (Error [Lit ''Expected '', Shown (Target (Array [JNull])), Lit '' to be empty'']) \<and>
   \<not> recognised (Plain (JNum (Finite 42))) \<and>
   convert_shown (Target (Plain (JNum (Finite 42)))) = Inr () \<and>
   isEmpty (Plain (JNum (Finite 42)))
     = Inl (Error [Lit ''Didn't know how to check if '',
                   Shown (Target (Plain (JNum (Finite 42)))), Lit '' is empty'']) \<and>
   convert_shown (Target (Plain (JObj 7 [(''toString'', JNum (Finite 1))])))
     = Inl (HostError TypeError) \<and>
   isEmpty (Plain (JObj 7 [(''toString'', JNum (Finite 1))])) = Inl (HostError TypeError)"
proof -
  show ?thesis
    using isEmpty_dispatch [of _ _ _ _ _ "Array [JNull]"]
          isEmpty_dispatch [of _ _ _ _ _ "Plain (JNum (Finite 42))"]
          isEmpty_dispatch [of _ _ _ _ _ "Plain (JObj 7 [(''toString'', JNum (Finite 1))])"
                               "HostError TypeError"]
    by (simp add: raise_template_def fail_def try_method_def call_builtin_def call_plain_def)
qed

text \<open>
  The claim as stated names strings, arrays, \<open>Map\<close> and \<open>Set\<close> and lets every other
  shape fail; the code's first branch also takes a \<open>NodeList\<close>, and an empty one passes.
\<close>

theorem isEmpty_NodeList_counterexample: "isEmpty (NodeList 0) = Inr ()"
  by simp

text \<open>
  C5. \<open>fail(message)\<close> never returns normally: for every message, the empty string
  included, it raises an \<open>Error\<close> whose message is exactly the one given; no default
  is put in place of a falsy message.
\<close>

theorem fail_never_returns:
  "fail message = Inl (Error message) \<and> fail message \<noteq> Inr () \<and>
   fail [Lit s] = Inl (Error [Lit s]) \<and> render [Lit s] = Some s \<and>
   fail [Lit ''''] = Inl (Error [Lit ''''])"
  by (simp add: fail_def)

text \<open>
  C6. The claim: \<open>hasAllKeys(thing, keys, message)\<close> passes if and only if the set of
  own keys of \<open>thing\<close> equals the set of the given keys, for every key list, duplicates
  included. The code compares the two lengths instead of the two sets, so it diverges on
  a key list with duplicates: with \<open>keys = ["a", "a"]\<close> it passes for \<open>{a: 1, b: 2}\<close>,
  whose key set differs, and fails for \<open>{a: 1}\<close>, whose key set is the same.
\<close>

theorem hasAllKeys_duplicate_keys:
  "hasAllKeys (JObj 1 [(''a'', JNum (Finite 1)), (''b'', JNum (Finite 2))]) [''a'', ''a''] message
     = Inr () \<and>
   set [''a'', ''b''] \<noteq> set [''a'', ''a''] \<and>
   hasAllKeys (JObj 1 [(''a'', JNum (Finite 1))]) [''a'', ''a''] message \<noteq> Inr () \<and>
   set [''a''] = set [''a'', ''a'']"
  by (auto simp: hasAllKeys_def fail_def)

text \<open>On a key list without duplicates the code decides the equality of the key sets.\<close>

lemma hasAllKeys_distinct_keys:
  assumes "Object_keys thing = Inr objectKeys" "distinct objectKeys" "distinct keys"
  shows "hasAllKeys thing keys message = Inr () \<longleftrightarrow> set objectKeys = set keys"
proof -
  have "length objectKeys = length keys \<and> set keys \<subseteq> set objectKeys
        \<longleftrightarrow> set objectKeys = set keys"
    using assms(2,3)
    by (metis card_subset_eq distinct_card List.finite_set order_refl)
  then show ?thesis
    using assms(1) by (auto simp: hasAllKeys_def fail_def list_all_iff Let_def)
qed

text \<open>
  C7. For every truthy \<open>x\<close> and every message \<open>m\<close>, \<open>isOk(x, m)\<close> passes. For every
  falsy \<open>x\<close> it fails: with the default message \<open>Expected ${x} to be ok\<close> when \<open>m\<close> is
  omitted or the empty string (a falsy value is a primitive, so the template of
  \<open>src/index.ts\<close> renders it), and with exactly \<open>m\<close> otherwise.
\<close>

theorem isOk_contract:
  "(truthy x \<longrightarrow> isOk x m = Inr ()) \<and>
   (\<not> truthy x \<and> (m = None \<or> m = Some []) \<longrightarrow>
      isOk x m = Inl (Error [Lit ''Expected '', Shown (Value x), Lit '' to be ok'']) \<and>
      (\<exists>t. prim_to_string x = Some t \<and>
           render [Lit ''Expected '', Shown (Value x), Lit '' to be ok'']
             = Some (''Expected '' @ t @ '' to be ok''))) \<and>
   (\<not> truthy x \<and> m = Some s \<and> s \<noteq> [] \<longrightarrow> isOk x m = Inl (Error [Lit s]))"
proof (intro conjI impI)
  show "isOk x m = Inr ()" if "truthy x"
    using that by (simp add: isOk_def)
  show "isOk x m = Inl (Error [Lit ''Expected '', Shown (Value x), Lit '' to be ok''])"
    if "\<not> truthy x \<and> (m = None \<or> m = Some [])"
    using that by (auto simp: isOk_def fail_def)
  show "\<exists>t. prim_to_string x = Some t \<and>
           render [Lit ''Expected '', Shown (Value x), Lit '' to be ok'']
             = Some (''Expected '' @ t @ '' to be ok'')"
    if "\<not> truthy x \<and> (m = None \<or> m = Some [])"
    using that by (cases x) auto
  show "isOk x m = Inl (Error [Lit s])" if "\<not> truthy x \<and> m = Some s \<and> s \<noteq> []"
    using that by (simp add: isOk_def fail_def)
qed

theorem isOk_contract_witness:
  "truthy (JStr ''a'') \<and> isOk (JStr ''a'') None = Inr () \<and>
   \<not> truthy (JNum (Finite 0)) \<and>
   isOk (JNum (Finite 0)) None
     = Inl (Error [Lit ''Expected '', Shown (Value (JNum (Finite 0))), Lit '' to be ok'']) \<and>
   render [Lit ''Expected '', Shown (Value (JNum (Finite 0))), Lit '' to be ok'']
     = Some ''Expected 0 to be ok'' \<and>
   \<not> truthy JNull \<and> isOk JNull (Some ''boom'') = Inl (Error [Lit ''boom''])"
  using isOk_contract [of "JStr ''a''" None]
        isOk_contract [of "JNum (Finite 0)" None]
        isOk_contract [of JNull "Some ''boom''" "''boom''"]
  by (simp add: show_nat.simps)

text \<open>\<open>SameValueZero\<close> is strict equality, with \<open>NaN\<close> the same value as itself.\<close>

lemma same_value_zero_iff:
  "same_value_zero x y \<longleftrightarrow> strict_eq x y \<or> (x = JNum NaN \<and> y = JNum NaN)"
  by (cases "(x, y)" rule: same_value_zero.cases) auto

text \<open>
  C9. \<open>include(haystack, needle, message)\<close> passes if and only if some element of the
  haystack is the same value as the needle under \<open>SameValueZero\<close>, without loose
  coercion: a haystack holding the string \<open>"1"\<close> does not include the number \<open>1\<close>,
  although \<open>equal(1, "1", m)\<close> passes. \<open>notInclude\<close> passes exactly when there is no
  such element.
\<close>

theorem include_strict_identity:
  "(include_assert haystack needle m = Inr () \<longleftrightarrow>
      (\<exists>x \<in> set haystack. strict_eq x needle \<or> (x = JNum NaN \<and> needle = JNum NaN))) \<and>
   (notInclude haystack needle m = Inr () \<longleftrightarrow>
      \<not> (\<exists>x \<in> set haystack. strict_eq x needle \<or> (x = JNum NaN \<and> needle = JNum NaN))) \<and>
   include_assert [JStr ''1''] (JNum (Finite 1)) m \<noteq> Inr () \<and>
   notInclude [JStr ''1''] (JNum (Finite 1)) m = Inr () \<and>
   equal_assert h (JNum (Finite 1)) (JStr ''1'') m = Inr ()"
  by (simp add: include_assert_def notInclude_def array_includes_def list_ex_iff
        same_value_zero_iff fail_def equal_assert_def loose_eq_def string_to_number_def
        is_digit_def read_nat_def)

text \<open>
  C10. \<open>containsAllKeys(thing, keys, message)\<close> with an empty key list passes for every
  \<open>thing\<close>, an object without own keys included.
\<close>

theorem containsAllKeys_no_keys: "containsAllKeys thing [] message = Inr ()"
  by (simp add: containsAllKeys_def)

end
